theory Spec2Isabelle
  imports Main "HOL-Library.Word"
begin

unbundle bit_operations_syntax

section \<open>Data model of \<open>shell::InteractiveShell\<close>\<close>

text \<open>
  The class \<open>InteractiveShell\<close> (InteractiveShell.h) keeps one pseudo-terminal session.
  Its fields become a record. A \<open>std::function\<close> callback is either empty or callable;
  a callable one is identified by a number, so \<open>m_callback\<close> is an option. A
  \<open>std::thread\<close> member is represented by what the code asks of it, \<open>joinable()\<close>.
  The static pointer \<open>s_active_instance\<close> is either \<open>this\<close> (True) or \<open>nullptr\<close>.
  \<open>int\<close> dimensions are 32-bit words, \<open>unsigned short\<close> is a 16-bit word; process
  identifiers and descriptors are integers (\<open>-1\<close> is the initial, invalid value).
\<close>

type_synonym sink = nat

record session =
  m_callback :: "sink option"
  m_running :: bool
  m_child_pid :: int
  m_master_fd :: int
  m_reader_thread :: bool
  m_signal_thread :: bool
  m_cols :: "32 word"
  m_rows :: "32 word"
  m_resize_pending :: bool
  s_active_instance :: bool

text \<open>The member initialisers of the class declaration.\<close>

definition initial :: session where
  "initial = \<lparr> m_callback = None, m_running = False, m_child_pid = - 1, m_master_fd = - 1,
     m_reader_thread = False, m_signal_thread = False, m_cols = 80, m_rows = 24,
     m_resize_pending = False, s_active_instance = False \<rparr>"

text \<open>\<open>struct winsize\<close> of the terminal interface: four \<open>unsigned short\<close> fields.\<close>

record winsize =
  ws_row :: "16 word"
  ws_col :: "16 word"
  ws_xpixel :: "16 word"
  ws_ypixel :: "16 word"

datatype signal = Sig0 | SIGINT | SIGTERM | SIGHUP | SIGKILL | SIGWINCH

datatype thread_id = ReaderThread | SignalThread

text \<open>
  The terminal attributes handed to \<open>forkpty\<close>: those of standard input, or the zeroed
  structure passed through \<open>cfmakeraw\<close>.
\<close>

datatype term_attrs = TermOfStdin | TermRaw

text \<open>
  Everything the code does to the outside is an event; an operation returns the events it
  issues in program order. The stores to the atomic flag \<open>m_running\<close> are events too,
  since the other threads read the flag. A blocking call (\<open>usleep\<close>, \<open>waitpid\<close>,
  \<open>join\<close>) is recorded where it is issued. An operation that can stay in such a call
  for ever also tells whether it returned.
\<close>

datatype event =
    StoreRunning bool
  | Tcgetattr
  | Forkpty term_attrs winsize
  | SetNonblock int
  | ThreadStart thread_id
  | SigactionWinch
  | Callback sink string
  | Kill int signal
  | Usleep nat
  | Waitpid int
  | Close int
  | Join thread_id
  | Poll int nat
  | Read int nat
  | Write int string
  | SigmaskBlock
  | Sigwait
  | SetWinsize int winsize

text \<open>Error numbers and poll bits come from the system headers; the values are those of Linux.\<close>

definition EINTR :: int where "EINTR = 4"
definition EAGAIN :: int where "EAGAIN = 11"
definition EWOULDBLOCK :: int where "EWOULDBLOCK = 11"

definition POLLIN :: "16 word" where "POLLIN = 1"
definition POLLERR :: "16 word" where "POLLERR = 8"
definition POLLHUP :: "16 word" where "POLLHUP = 16"
definition POLLNVAL :: "16 word" where "POLLNVAL = 32"

text \<open>\<open>if (m_callback) m_callback(msg);\<close>\<close>

definition notify :: "'a session_scheme \<Rightarrow> string \<Rightarrow> event list" where
  "notify s msg = (case m_callback s of None \<Rightarrow> [] | Some cb \<Rightarrow> [Callback cb msg])"

section \<open>StopShell\<close>

text \<open>
  Lines 97 to 106: the child is asked to terminate, the caller sleeps 200000 microseconds,
  probes the child with signal 0 and kills it if the probe succeeds, then reaps it.
  \<open>probe\<close> is the value that \<open>kill(m_child_pid, 0)\<close> returns.
\<close>

definition stop_child :: "int \<Rightarrow> session \<Rightarrow> session \<times> event list" where
  "stop_child probe s =
     (if m_child_pid s > 0 then
        (s\<lparr>m_child_pid := - 1\<rparr>,
         [Kill (m_child_pid s) SIGTERM, Usleep 200000, Kill (m_child_pid s) Sig0]
           @ (if probe = 0 then [Kill (m_child_pid s) SIGKILL] else [])
           @ [Waitpid (m_child_pid s)])
      else (s, []))"

text \<open>Lines 108 to 111.\<close>

definition close_master :: "session \<Rightarrow> session \<times> event list" where
  "close_master s =
     (if m_master_fd s \<ge> 0 then (s\<lparr>m_master_fd := - 1\<rparr>, [Close (m_master_fd s)])
      else (s, []))"

text \<open>
  Lines 113 to 118. \<open>join\<close> returns only once the joined thread has reached the end of
  its function, and nothing in \<open>StopShell\<close> makes it do so: the reader leaves its loop
  when it next reads the cleared flag, the signal thread only when \<open>sigwait\<close> returns.
  \<open>ends t\<close> tells whether thread \<open>t\<close> ever reaches its end. The result says whether
  the caller got past both joins (True) or stays in one of them (False). A joined thread
  is no longer joinable.
\<close>

definition join_threads :: "(thread_id \<Rightarrow> bool) \<Rightarrow> session \<Rightarrow> session \<times> event list \<times> bool" where
  "join_threads ends s =
     (if m_reader_thread s \<and> \<not> ends ReaderThread then (s, [Join ReaderThread], False)
      else
        let s1 = (if m_reader_thread s then s\<lparr>m_reader_thread := False\<rparr> else s);
            e1 = (if m_reader_thread s then [Join ReaderThread] else [])
        in if m_signal_thread s1 \<and> \<not> ends SignalThread then (s1, e1 @ [Join SignalThread], False)
           else
             (if m_signal_thread s1 then s1\<lparr>m_signal_thread := False\<rparr> else s1,
              e1 @ (if m_signal_thread s1 then [Join SignalThread] else []),
              True))"

definition terminated_notice :: string where
  "terminated_notice = ''ISHELL_OUTPUT:[*] Shell terminated\<newline>''"

text \<open>
  The result is the session, the events issued, and whether \<open>StopShell\<close> returned:
  lines 120 to 124 are reached only past the joins.
\<close>

definition StopShell :: "(thread_id \<Rightarrow> bool) \<Rightarrow> int \<Rightarrow> session \<Rightarrow> session \<times> event list \<times> bool" where
  "StopShell ends probe s =
     (if \<not> m_running s then (s, [], True)
      else
        let s0 = s\<lparr>m_running := False\<rparr>;
            (s1, e1) = stop_child probe s0;
            (s2, e2) = close_master s1;
            (s3, e3, joined) = join_threads ends s2
        in if \<not> joined then (s3, [StoreRunning False] @ e1 @ e2 @ e3, False)
           else
             let s4 = s3\<lparr>s_active_instance := False\<rparr>
             in (s4, [StoreRunning False] @ e1 @ e2 @ e3 @ notify s4 terminated_notice, True))"

section \<open>WriteToShell\<close>

text \<open>Lines 130 to 133: the buffer that is handed to \<open>write\<close>.\<close>

definition line_data :: "string \<Rightarrow> string" where
  "line_data command =
     (if command \<noteq> [] \<and> last command \<noteq> CHR 0x0A then command @ [CHR 0x0A] else command)"

text \<open>
  \<open>n\<close> is the value \<open>write\<close> returns and \<open>errno\<close> the error number it leaves;
  \<open>ends\<close> and \<open>probe\<close> are passed on to \<open>StopShell\<close>. The flag is read twice,
  at line 128 and again at line 93 when \<open>StopShell\<close> is entered, and the reader thread
  may store false (line 184) in between: \<open>reader_stored\<close> tells whether it did. The
  store is the reader's event, not one of \<open>WriteToShell\<close>.
\<close>

definition WriteToShell ::
  "int \<Rightarrow> int \<Rightarrow> bool \<Rightarrow> (thread_id \<Rightarrow> bool) \<Rightarrow> int \<Rightarrow> string \<Rightarrow> session
     \<Rightarrow> session \<times> event list \<times> bool" where
  "WriteToShell n errno reader_stored ends probe command s =
     (if \<not> m_running s \<or> m_master_fd s < 0 then (s, [], True)
      else
        let data = line_data command;
            e0 = [Write (m_master_fd s) data]
        in if n < 0 \<and> errno \<noteq> EAGAIN \<and> errno \<noteq> EWOULDBLOCK
           then (let s0 = (if reader_stored then s\<lparr>m_running := False\<rparr> else s);
                     (s1, e1, returned) = StopShell ends probe s0
                 in (s1, e0 @ e1, returned))
           else (s, e0, True))"

section \<open>IsShellRunning and NotifyResize\<close>

definition IsShellRunning :: "int \<Rightarrow> session \<Rightarrow> bool" where
  "IsShellRunning probe s \<longleftrightarrow> m_running s \<and> m_child_pid s > 0 \<and> probe = 0"

text \<open>
  The casts \<open>static_cast<unsigned short>(cols)\<close> keep the low 16 bits (\<open>ucast\<close>); the
  other two fields of the zero-initialised \<open>winsize\<close> stay 0.
\<close>

definition NotifyResize :: "32 word \<Rightarrow> 32 word \<Rightarrow> session \<Rightarrow> session \<times> event list" where
  "NotifyResize cols rows s =
     (if \<not> m_running s \<or> m_master_fd s < 0 then (s, [])
      else
        let s1 = s\<lparr>m_cols := cols, m_rows := rows\<rparr>;
            ws = \<lparr> ws_row = ucast rows, ws_col = ucast cols, ws_xpixel = 0, ws_ypixel = 0 \<rparr>
        in (s1, [SetWinsize (m_master_fd s1) ws]
                 @ (if m_child_pid s1 > 0 then [Kill (m_child_pid s1) SIGWINCH] else [])))"

definition SigwinchHandler :: "session \<Rightarrow> session" where
  "SigwinchHandler s = (if s_active_instance s then s\<lparr>m_resize_pending := True\<rparr> else s)"

section \<open>StartShell\<close>

text \<open>
  What the operating system answers during \<open>StartShell\<close>: the value of
  \<open>tcgetattr\<close>, the value of \<open>forkpty\<close> and the descriptor it stores through its
  first argument, the value of \<open>access(path, X_OK)\<close>, whether \<open>execve\<close> of a path
  replaces the process image, and the environment \<open>environ\<close> of the process.
  \<open>forkpty\<close> stores the master descriptor only in the parent of a successful fork.
\<close>

record start_env =
  tcgetattr_ret :: int
  forkpty_pid :: int
  forkpty_master :: int
  access_ret :: "string \<Rightarrow> int"
  execve_replaces :: "string \<Rightarrow> bool"
  environ :: "string list"

text \<open>
  The child never returns from \<open>StartShell\<close>: either \<open>execve\<close> replaces its image
  (path, argument vector, environment) or it leaves through \<open>_exit\<close>.
\<close>

datatype child_outcome = Execve string "string list" "string list" | Exit int

text \<open>Lines 54 to 57: bash first, then sh.\<close>

definition select_shell :: "(string \<Rightarrow> int) \<Rightarrow> string" where
  "select_shell access_x =
     (let shell = ''/bin/bash'' in if access_x shell \<noteq> 0 then ''/bin/sh'' else shell)"

text \<open>Lines 49 to 66.\<close>

definition child_branch :: "start_env \<Rightarrow> child_outcome" where
  "child_branch env =
     (let shell = select_shell (access_ret env);
          argv = [shell]
      in if execve_replaces env shell then Execve shell argv (environ env) else Exit 127)"

text \<open>
  \<open>StartShell\<close> returns to its caller, or continues as the child, or ends the process:
  lines 75 and 78 construct the new thread and move-assign it to the member, and
  move-assigning to a \<open>std::thread\<close> that is still joinable calls \<open>std::terminate\<close>.
\<close>

datatype start_outcome =
    Returned session "event list"
  | InChild child_outcome
  | StdTerminate "event list"

definition forkpty_failed_notice :: string where
  "forkpty_failed_notice = ''ISHELL_OUTPUT:[!] forkpty failed\<newline>''"

definition started_notice :: string where
  "started_notice = ''ISHELL_OUTPUT:[*] PTY shell started (bash/sh)\<newline>''"

definition StartShell :: "start_env \<Rightarrow> sink option \<Rightarrow> session \<Rightarrow> start_outcome" where
  "StartShell env callback s =
     (if m_running s then Returned s []
      else
        let s1 = s\<lparr>m_callback := callback, m_running := True\<rparr>;
            ws = \<lparr> ws_row = ucast (m_rows s1), ws_col = ucast (m_cols s1),
                   ws_xpixel = 0, ws_ypixel = 0 \<rparr>;
            term = (if tcgetattr_ret env < 0 then TermRaw else TermOfStdin);
            pid = forkpty_pid env;
            s2 = s1\<lparr>m_child_pid := pid,
                    m_master_fd := (if pid > 0 then forkpty_master env else m_master_fd s1)\<rparr>;
            e0 = [StoreRunning True, Tcgetattr, Forkpty term ws]
        in if pid < 0 then
             (let s3 = s2\<lparr>m_running := False\<rparr>
              in Returned s3 (e0 @ [StoreRunning False] @ notify s3 forkpty_failed_notice))
           else if pid = 0 then InChild (child_branch env)
           else
             let s3 = s2\<lparr>s_active_instance := True\<rparr>;
                 e1 = e0 @ [SetNonblock (m_master_fd s3)]
             in if m_reader_thread s3 then StdTerminate (e1 @ [ThreadStart ReaderThread])
                else if m_signal_thread s3
                then StdTerminate (e1 @ [ThreadStart ReaderThread, ThreadStart SignalThread])
                else
                  let s4 = s3\<lparr>m_reader_thread := True, m_signal_thread := True\<rparr>
                  in Returned s4
                       (e1 @ [ThreadStart ReaderThread, ThreadStart SignalThread, SigactionWinch]
                           @ notify s4 started_notice))"

section \<open>ReaderThreadFunc\<close>

text \<open>
  One turn of the reader's loop consults the outside several times: the value of the
  atomic flag read by the loop test, the value of \<open>poll\<close> with its error number and
  the returned events, and the value of \<open>read\<close> with its error number and the buffer
  it filled. The loop is run over the list of these answers; the boolean result tells
  whether the loop was left (True) or is still waiting for the next answer (False).
\<close>

record reader_io =
  flag :: bool
  poll_ret :: int
  poll_errno :: int
  revents :: "16 word"
  read_ret :: int
  read_errno :: int
  read_buf :: string

definition output_prefix :: string where
  "output_prefix = ''ISHELL_OUTPUT:''"

text \<open>Lines 176 to 179: \<open>std::string chunk(buf.data(), n)\<close> with the prefix in front.\<close>

definition chunk_message :: "string \<Rightarrow> string" where
  "chunk_message chunk = output_prefix @ chunk"

fun reader_loop :: "session \<Rightarrow> reader_io list \<Rightarrow> event list \<times> bool" where
  "reader_loop s [] = ([], False)"
| "reader_loop s (io # ios) =
     (if \<not> flag io then ([], True)
      else
        let (rest, left) = reader_loop s ios;
            e_poll = [Poll (m_master_fd s) 150]
        in if poll_ret io < 0 then
             (if poll_errno io = EINTR then (e_poll @ rest, left) else (e_poll, True))
           else if poll_ret io = 0 then (e_poll @ rest, left)
           else if revents io AND (POLLERR OR POLLHUP OR POLLNVAL) \<noteq> 0 then (e_poll, True)
           else if revents io AND POLLIN \<noteq> 0 then
             (let n = read_ret io;
                  e_read = e_poll @ [Read (m_master_fd s) 4096]
              in if n \<le> 0 then
                   (if n = 0 \<or> (n < 0 \<and> read_errno io \<noteq> EAGAIN \<and> read_errno io \<noteq> EWOULDBLOCK)
                    then (e_read, True)
                    else (e_read @ rest, left))
                 else
                   (e_read @ notify s (chunk_message (take (nat n) (read_buf io))) @ rest, left))
           else (e_poll @ rest, left))"

definition closed_notice :: string where
  "closed_notice = ''ISHELL_OUTPUT:[*] PTY closed\<newline>''"

text \<open>Lines 183 to 187 run once the loop is left.\<close>

definition ReaderThreadFunc :: "reader_io list \<Rightarrow> session \<Rightarrow> session \<times> event list \<times> bool" where
  "ReaderThreadFunc ios s =
     (let (es, left) = reader_loop s ios
      in if left then (s\<lparr>m_running := False\<rparr>, es @ [StoreRunning False] @ notify s closed_notice, True)
         else (s, es, False))"

section \<open>SignalForwardThreadFunc\<close>

text \<open>
  One turn of the forwarding loop: the flag read by the loop test, the value of
  \<open>sigwait\<close> and the signal it delivered.
\<close>

fun signal_loop :: "session \<Rightarrow> (bool \<times> int \<times> signal) list \<Rightarrow> event list \<times> bool" where
  "signal_loop s [] = ([], False)"
| "signal_loop s ((running_read, ret, sig) # ios) =
     (if \<not> running_read then ([], True)
      else
        let (rest, left) = signal_loop s ios
        in ([Sigwait]
              @ (if ret = 0 \<and> m_child_pid s > 0 then [Kill (m_child_pid s) sig] else [])
              @ rest, left))"

definition SignalForwardThreadFunc :: "(bool \<times> int \<times> signal) list \<Rightarrow> session \<Rightarrow> event list \<times> bool" where
  "SignalForwardThreadFunc ios s =
     (let (es, left) = signal_loop s ios in (SigmaskBlock # es, left))"

section \<open>Sessions reached by whole operations\<close>

text \<open>
  The sessions a program can observe between operations: the freshly constructed one, and
  what \<open>StartShell\<close> (in the parent), \<open>StopShell\<close>, \<open>WriteToShell\<close>,
  \<open>NotifyResize\<close>, the resize handler and the exit of the reader thread make of a
  reached session. A successful \<open>forkpty\<close> hands the parent a valid descriptor. The
  session that a \<open>StopShell\<close> staying in a join leaves behind is counted as well.
\<close>

inductive_set reach :: "session set" where
  reach_initial: "initial \<in> reach"
| reach_start:
    "s \<in> reach \<Longrightarrow> (forkpty_pid env > 0 \<longrightarrow> forkpty_master env \<ge> 0) \<Longrightarrow>
     StartShell env callback s = Returned s' es \<Longrightarrow> s' \<in> reach"
| reach_stop: "s \<in> reach \<Longrightarrow> StopShell ends probe s = (s', es, returned) \<Longrightarrow> s' \<in> reach"
| reach_write:
    "s \<in> reach \<Longrightarrow>
     WriteToShell n errno reader_stored ends probe command s = (s', es, returned) \<Longrightarrow> s' \<in> reach"
| reach_resize: "s \<in> reach \<Longrightarrow> NotifyResize cols rows s = (s', es) \<Longrightarrow> s' \<in> reach"
| reach_sigwinch: "s \<in> reach \<Longrightarrow> SigwinchHandler s \<in> reach"
| reach_reader:
    "s \<in> reach \<Longrightarrow> m_reader_thread s \<Longrightarrow> ReaderThreadFunc ios s = (s', es, True) \<Longrightarrow> s' \<in> reach"

section \<open>The caller against the two background threads\<close>

text \<open>
  \<open>StopShell\<close> and \<open>WriteToShell\<close> run in the caller's thread while
  \<open>ReaderThreadFunc\<close> and \<open>SignalForwardThreadFunc\<close> run in theirs, all on the same
  object. Here each thread advances by one statement at a time and the statements of the
  three threads interleave freely. A program counter is named after the source line it is
  about to execute; \<open>M_early\<close> is the return of line 93, \<open>M_end\<close>, \<open>R_end\<close> and
  \<open>S_end\<close> are the ends of \<open>StopShell\<close> and of the two thread functions;
  \<open>W_early\<close> is the return of line 128 and \<open>W_end\<close> the end of a
  \<open>WriteToShell\<close> that did not call \<open>StopShell\<close>.

  The record extends the session by the three program counters, the locals that live across
  statements (\<open>pfd.fd\<close>, the chunk read, the signal received), the fact whether the
  descriptor that \<open>forkpty\<close> returned is still open, and the events issued so far by all
  threads, in the order of their execution. \<open>join\<close> can only be passed once the joined
  thread has reached its end, and its event is recorded when it is passed; \<open>sigwait\<close>
  is passed when a signal arrives, which is what a step of the signal thread at line 204
  stands for.
\<close>

datatype main_pc =
    M93 | M95 | M97 | M99 | M100 | M101 | M102 | M104 | M105 | M108 | M109 | M110
  | M113 | M116 | M120 | M122 | M_early | M_end
  | W128 | W135 | W_early | W_end

datatype reader_pc = R152 | R155 | R156 | R168 | R176 | R184 | R185 | R_end

datatype signal_pc = S194 | S202 | S204 | S205 | S_end

record threads = session +
  mpc :: main_pc
  rpc :: reader_pc
  spc :: signal_pc
  pfd_fd :: int
  chunk :: string
  sig :: signal
  master_open :: bool
  trace :: "event list"

text \<open>
  The threads of a running session: the caller enters \<open>StopShell\<close>, the two background
  threads are at the top of their functions, nothing has been closed.
\<close>

definition launch :: "session \<Rightarrow> threads" where
  "launch s = session.extend s
     \<lparr> mpc = M93, rpc = R152, spc = S194, pfd_fd = 0, chunk = [], sig = Sig0,
       master_open = True, trace = [] \<rparr>"

text \<open>The same with the caller entering \<open>WriteToShell\<close>.\<close>

definition launch_write :: "session \<Rightarrow> threads" where
  "launch_write s = (launch s)\<lparr>mpc := W128\<rparr>"

definition emit :: "event list \<Rightarrow> threads \<Rightarrow> threads" where
  "emit es c = c\<lparr>trace := trace c @ es\<rparr>"

text \<open>\<open>StopShell\<close>, lines 93 to 125; \<open>probe\<close> is the value of \<open>kill(m_child_pid, 0)\<close>.\<close>

definition main_step :: "int \<Rightarrow> threads \<Rightarrow> threads option" where
  "main_step probe c =
     (case mpc c of
        M93 \<Rightarrow> Some (if \<not> m_running c then c\<lparr>mpc := M_early\<rparr> else c\<lparr>mpc := M95\<rparr>)
      | M95 \<Rightarrow> Some (emit [StoreRunning False] (c\<lparr>m_running := False, mpc := M97\<rparr>))
      | M97 \<Rightarrow> Some (if m_child_pid c > 0 then c\<lparr>mpc := M99\<rparr> else c\<lparr>mpc := M108\<rparr>)
      | M99 \<Rightarrow> Some (emit [Kill (m_child_pid c) SIGTERM] (c\<lparr>mpc := M100\<rparr>))
      | M100 \<Rightarrow> Some (emit [Usleep 200000] (c\<lparr>mpc := M101\<rparr>))
      | M101 \<Rightarrow> Some (emit [Kill (m_child_pid c) Sig0]
                        (if probe = 0 then c\<lparr>mpc := M102\<rparr> else c\<lparr>mpc := M104\<rparr>))
      | M102 \<Rightarrow> Some (emit [Kill (m_child_pid c) SIGKILL] (c\<lparr>mpc := M104\<rparr>))
      | M104 \<Rightarrow> Some (emit [Waitpid (m_child_pid c)] (c\<lparr>mpc := M105\<rparr>))
      | M105 \<Rightarrow> Some (c\<lparr>m_child_pid := - 1, mpc := M108\<rparr>)
      | M108 \<Rightarrow> Some (if m_master_fd c \<ge> 0 then c\<lparr>mpc := M109\<rparr> else c\<lparr>mpc := M113\<rparr>)
      | M109 \<Rightarrow> Some (emit [Close (m_master_fd c)] (c\<lparr>master_open := False, mpc := M110\<rparr>))
      | M110 \<Rightarrow> Some (c\<lparr>m_master_fd := - 1, mpc := M113\<rparr>)
      | M113 \<Rightarrow>
          (if m_reader_thread c then
             (if rpc c = R_end
              then Some (emit [Join ReaderThread] (c\<lparr>m_reader_thread := False, mpc := M116\<rparr>))
              else None)
           else Some (c\<lparr>mpc := M116\<rparr>))
      | M116 \<Rightarrow>
          (if m_signal_thread c then
             (if spc c = S_end
              then Some (emit [Join SignalThread] (c\<lparr>m_signal_thread := False, mpc := M120\<rparr>))
              else None)
           else Some (c\<lparr>mpc := M120\<rparr>))
      | M120 \<Rightarrow> Some (c\<lparr>s_active_instance := False, mpc := M122\<rparr>)
      | M122 \<Rightarrow> Some (emit (notify c terminated_notice) (c\<lparr>mpc := M_end\<rparr>))
      | M_early \<Rightarrow> None
      | M_end \<Rightarrow> None
      | W128 \<Rightarrow> None
      | W135 \<Rightarrow> None
      | W_early \<Rightarrow> None
      | W_end \<Rightarrow> None)"

text \<open>
  \<open>WriteToShell\<close>, lines 128 to 139, up to its call of \<open>StopShell\<close>, which is
  continued by \<open>main_step\<close>; \<open>n\<close> and \<open>errno\<close> are the value of \<open>write\<close>
  and the error number it leaves.
\<close>

definition write_step :: "string \<Rightarrow> int \<Rightarrow> int \<Rightarrow> threads \<Rightarrow> threads option" where
  "write_step command n errno c =
     (case mpc c of
        W128 \<Rightarrow>
          Some (if \<not> m_running c \<or> m_master_fd c < 0 then c\<lparr>mpc := W_early\<rparr>
                else c\<lparr>mpc := W135\<rparr>)
      | W135 \<Rightarrow>
          Some (emit [Write (m_master_fd c) (line_data command)]
            (if n < 0 \<and> errno \<noteq> EAGAIN \<and> errno \<noteq> EWOULDBLOCK then c\<lparr>mpc := M93\<rparr>
             else c\<lparr>mpc := W_end\<rparr>))
      | _ \<Rightarrow> None)"

text \<open>
  \<open>ReaderThreadFunc\<close>, lines 149 to 187. The loop test reads the shared flag, so the
  field \<open>flag\<close> of the answers is not consulted here. \<open>poll\<close> works on the copy
  \<open>pfd.fd\<close> taken at line 152, \<open>read\<close> on the field \<open>m_master_fd\<close>.
\<close>

definition reader_step :: "reader_io \<Rightarrow> threads \<Rightarrow> threads option" where
  "reader_step io c =
     (case rpc c of
        R152 \<Rightarrow> Some (c\<lparr>pfd_fd := m_master_fd c, rpc := R155\<rparr>)
      | R155 \<Rightarrow> Some (if m_running c then c\<lparr>rpc := R156\<rparr> else c\<lparr>rpc := R184\<rparr>)
      | R156 \<Rightarrow>
          Some (emit [Poll (pfd_fd c) 150]
            (if poll_ret io < 0 then
               (if poll_errno io = EINTR then c\<lparr>rpc := R155\<rparr> else c\<lparr>rpc := R184\<rparr>)
             else if poll_ret io = 0 then c\<lparr>rpc := R155\<rparr>
             else if revents io AND (POLLERR OR POLLHUP OR POLLNVAL) \<noteq> 0 then c\<lparr>rpc := R184\<rparr>
             else if revents io AND POLLIN \<noteq> 0 then c\<lparr>rpc := R168\<rparr>
             else c\<lparr>rpc := R155\<rparr>))
      | R168 \<Rightarrow>
          Some (emit [Read (m_master_fd c) 4096]
            (let n = read_ret io
             in if n \<le> 0 then
                  (if n = 0 \<or> (n < 0 \<and> read_errno io \<noteq> EAGAIN \<and> read_errno io \<noteq> EWOULDBLOCK)
                   then c\<lparr>rpc := R184\<rparr>
                   else c\<lparr>rpc := R155\<rparr>)
                else c\<lparr>chunk := take (nat n) (read_buf io), rpc := R176\<rparr>))
      | R176 \<Rightarrow> Some (emit (notify c (chunk_message (chunk c))) (c\<lparr>rpc := R155\<rparr>))
      | R184 \<Rightarrow> Some (emit [StoreRunning False] (c\<lparr>m_running := False, rpc := R185\<rparr>))
      | R185 \<Rightarrow> Some (emit (notify c closed_notice) (c\<lparr>rpc := R_end\<rparr>))
      | R_end \<Rightarrow> None)"

text \<open>
  \<open>SignalForwardThreadFunc\<close>, lines 194 to 210; \<open>ret\<close> and \<open>sg\<close> are the value
  of \<open>sigwait\<close> and the signal it stored.
\<close>

definition signal_step :: "int \<Rightarrow> signal \<Rightarrow> threads \<Rightarrow> threads option" where
  "signal_step ret sg c =
     (case spc c of
        S194 \<Rightarrow> Some (emit [SigmaskBlock] (c\<lparr>spc := S202\<rparr>))
      | S202 \<Rightarrow> Some (if m_running c then c\<lparr>spc := S204\<rparr> else c\<lparr>spc := S_end\<rparr>)
      | S204 \<Rightarrow> Some (emit [Sigwait] (if ret = 0 then c\<lparr>sig := sg, spc := S205\<rparr> else c\<lparr>spc := S202\<rparr>))
      | S205 \<Rightarrow>
          Some (if m_child_pid c > 0
                then emit [Kill (m_child_pid c) (sig c)] (c\<lparr>spc := S202\<rparr>)
                else c\<lparr>spc := S202\<rparr>)
      | S_end \<Rightarrow> None)"

text \<open>A schedule names, step by step, the thread that moves and what the outside answers.\<close>

datatype action =
    MainStep int
  | ReaderStep reader_io
  | SignalStep int signal
  | WriteStep string int int

fun step :: "action \<Rightarrow> threads \<Rightarrow> threads option" where
  "step (MainStep probe) c = main_step probe c"
| "step (ReaderStep io) c = reader_step io c"
| "step (SignalStep ret sg) c = signal_step ret sg c"
| "step (WriteStep command n errno) c = write_step command n errno c"

text \<open>\<open>None\<close>: the schedule asks a thread to move that has ended or is blocked.\<close>

fun run :: "action list \<Rightarrow> threads \<Rightarrow> threads option" where
  "run [] c = Some c"
| "run (a # as) c = (case step a c of None \<Rightarrow> None | Some c' \<Rightarrow> run as c')"

text \<open>
  The caller's thread on its own, for at most the given number of statements, and the
  threads of a session whose two background threads have already ended.
\<close>

fun main_run :: "nat \<Rightarrow> int \<Rightarrow> threads \<Rightarrow> threads" where
  "main_run 0 probe c = c"
| "main_run (Suc k) probe c =
     (case main_step probe c of None \<Rightarrow> c | Some c' \<Rightarrow> main_run k probe c')"

definition ended :: "session \<Rightarrow> threads" where
  "ended s = (launch s)\<lparr>rpc := R_end, spc := S_end\<rparr>"

section \<open>Reading traces\<close>

text \<open>What was handed to the callback, what was handed to \<open>write\<close>, which threads were started.\<close>

fun delivered :: "event list \<Rightarrow> (sink \<times> string) list" where
  "delivered [] = []"
| "delivered (Callback cb msg # es) = (cb, msg) # delivered es"
| "delivered (e # es) = delivered es"

fun writes :: "event list \<Rightarrow> (int \<times> string) list" where
  "writes [] = []"
| "writes (Write fd d # es) = (fd, d) # writes es"
| "writes (e # es) = writes es"

fun thread_starts :: "event list \<Rightarrow> thread_id list" where
  "thread_starts [] = []"
| "thread_starts (ThreadStart t # es) = t # thread_starts es"
| "thread_starts (e # es) = thread_starts es"

text \<open>
  A delivered string carries the prefix when its first fourteen characters are
  \<open>ISHELL_OUTPUT:\<close>.
\<close>

definition has_output_prefix :: "string \<Rightarrow> bool" where
  "has_output_prefix msg \<longleftrightarrow> take (length output_prefix) msg = output_prefix"

definition all_prefixed :: "event list \<Rightarrow> bool" where
  "all_prefixed es \<longleftrightarrow> list_all (\<lambda>(cb, msg). has_output_prefix msg) (delivered es)"

fun events_of :: "start_outcome \<Rightarrow> event list" where
  "events_of (Returned s es) = es"
| "events_of (InChild c) = []"
| "events_of (StdTerminate es) = es"

text \<open>What the interleaving model shows of a state.\<close>

definition observe :: "threads \<Rightarrow> main_pc \<times> reader_pc \<times> bool \<times> bool \<times> event list" where
  "observe c = (mpc c, rpc c, m_running c, master_open c, trace c)"

text \<open>
  A standstill: besides the program counters and the events, whether the caller's thread
  and the reader thread are unable to move.
\<close>

definition standstill ::
  "threads \<Rightarrow> main_pc \<times> reader_pc \<times> signal_pc \<times> bool \<times> bool \<times> event list" where
  "standstill c =
     (mpc c, rpc c, spc c, main_step 0 c = None, reader_step \<lparr> flag = True, poll_ret = 0,
        poll_errno = 0, revents = 0, read_ret = 0, read_errno = 0, read_buf = [] \<rparr> c = None,
      trace c)"

text \<open>A schedule in which the signal thread does not move.\<close>

fun no_signal_step :: "action list \<Rightarrow> bool" where
  "no_signal_step [] = True"
| "no_signal_step (SignalStep ret sg # as) = False"
| "no_signal_step (a # as) = no_signal_step as"

text \<open>
  Where the caller's thread stands in \<open>StopShell\<close>: past the store of line 95, past the
  \<open>close\<close> of line 109, past the \<open>join\<close> of line 114.
\<close>

fun cleared :: "main_pc \<Rightarrow> bool" where
  "cleared M93 = False"
| "cleared M95 = False"
| "cleared W128 = False"
| "cleared W135 = False"
| "cleared W_early = False"
| "cleared W_end = False"
| "cleared pc = True"

fun closed_at :: "main_pc \<Rightarrow> bool" where
  "closed_at M110 = True"
| "closed_at M113 = True"
| "closed_at M116 = True"
| "closed_at M120 = True"
| "closed_at M122 = True"
| "closed_at M_end = True"
| "closed_at pc = False"

fun joined_at :: "main_pc \<Rightarrow> bool" where
  "joined_at M116 = True"
| "joined_at M120 = True"
| "joined_at M122 = True"
| "joined_at M_end = True"
| "joined_at pc = False"

text \<open>Past the \<open>join\<close> of line 117.\<close>

fun signal_joined :: "main_pc \<Rightarrow> bool" where
  "signal_joined M120 = True"
| "signal_joined M122 = True"
| "signal_joined M_end = True"
| "signal_joined pc = False"

text \<open>What holds of the three threads at every moment of a stop.\<close>

definition stop_inv :: "threads \<Rightarrow> bool" where
  "stop_inv c \<longleftrightarrow>
     (cleared (mpc c) \<longrightarrow> \<not> m_running c) \<and>
     (master_open c \<longleftrightarrow> \<not> closed_at (mpc c)) \<and>
     (\<not> closed_at (mpc c) \<longrightarrow> 0 \<le> m_master_fd c) \<and>
     (m_reader_thread c \<longleftrightarrow> \<not> joined_at (mpc c)) \<and>
     (joined_at (mpc c) \<longrightarrow> rpc c = R_end)"

section \<open>Concrete sessions and answers\<close>

text \<open>
  A terminal whose attributes can be read, a fork that gives the parent the child 100
  and the descriptor 3, both shells executable.
\<close>

definition example_env :: start_env where
  "example_env = \<lparr> tcgetattr_ret = 0, forkpty_pid = 100, forkpty_master = 3,
     access_ret = (\<lambda>p. 0), execve_replaces = (\<lambda>p. True), environ = [''PATH=/bin''] \<rparr>"

definition example_session :: session where
  "example_session = \<lparr> m_callback = Some 0, m_running = True, m_child_pid = 100, m_master_fd = 3,
     m_reader_thread = True, m_signal_thread = True, m_cols = 80, m_rows = 24,
     m_resize_pending = False, s_active_instance = True \<rparr>"

text \<open>
  Answers of the outside to the reader: the poll reports a hangup; the poll reports input
  and the read delivers the given bytes; the poll times out; the poll reports an invalid
  descriptor.
\<close>

definition hangup_io :: reader_io where
  "hangup_io = \<lparr> flag = True, poll_ret = 1, poll_errno = 0, revents = POLLHUP,
     read_ret = 0, read_errno = 0, read_buf = [] \<rparr>"

definition data_io :: "string \<Rightarrow> reader_io" where
  "data_io bytes = \<lparr> flag = True, poll_ret = 1, poll_errno = 0, revents = POLLIN,
     read_ret = int (length bytes), read_errno = 0, read_buf = bytes @ replicate (4096 - length bytes) (CHR 0x00) \<rparr>"

definition timeout_io :: reader_io where
  "timeout_io = \<lparr> flag = True, poll_ret = 0, poll_errno = 0, revents = 0,
     read_ret = 0, read_errno = 0, read_buf = [] \<rparr>"

definition nval_io :: reader_io where
  "nval_io = \<lparr> flag = True, poll_ret = 1, poll_errno = 0, revents = POLLNVAL,
     read_ret = 0, read_errno = 0, read_buf = [] \<rparr>"

text \<open>
  The reader passes its loop test and is about to call \<open>poll\<close>; then the caller runs
  \<open>StopShell\<close> from line 93 up to and including the \<open>close\<close> of line 109.
\<close>

definition close_race :: "action list" where
  "close_race =
     [ReaderStep timeout_io, ReaderStep timeout_io,
      MainStep 0, MainStep 0, MainStep 0, MainStep 0, MainStep 0, MainStep 0,
      MainStep 0, MainStep 0, MainStep 0, MainStep 0, MainStep 0]"

text \<open>The same schedule carried on until all three threads have ended.\<close>

definition full_stop :: "action list" where
  "full_stop =
     close_race @
     [ReaderStep nval_io, ReaderStep nval_io, ReaderStep nval_io,
      MainStep 0, MainStep 0,
      SignalStep 0 SIGINT, SignalStep 0 SIGINT,
      MainStep 0, MainStep 0, MainStep 0]"

text \<open>
  An ordinary stop with no signal on its way: the signal thread has entered
  \<open>sigwait\<close>, the reader waits in \<open>poll\<close>; the caller clears the flag, the reader's
  poll times out and the reader ends; the caller goes on to the join of the reader.
\<close>

definition join_hang :: "action list" where
  "join_hang =
     [SignalStep 0 SIGINT, SignalStep 0 SIGINT,
      ReaderStep timeout_io, ReaderStep timeout_io,
      MainStep 0, MainStep 0,
      ReaderStep timeout_io, ReaderStep timeout_io, ReaderStep timeout_io, ReaderStep timeout_io,
      MainStep 0, MainStep 0, MainStep 0, MainStep 0, MainStep 0, MainStep 0,
      MainStep 0, MainStep 0, MainStep 0, MainStep 0, MainStep 0]"

text \<open>
  A write to a child that has gone: the reader waits in \<open>poll\<close>; the caller passes
  the test of line 128 and its write fails with error 5; the reader's poll reports the
  hangup and the reader stores false; the caller enters \<open>StopShell\<close>.
\<close>

definition write_race :: "action list" where
  "write_race =
     [ReaderStep timeout_io, ReaderStep timeout_io,
      WriteStep ''ls'' (- 1) 5, WriteStep ''ls'' (- 1) 5,
      ReaderStep hangup_io, ReaderStep hangup_io,
      MainStep 0]"

text \<open>Threads that never end, threads that all end, and only the reader ending.\<close>

definition none_ends :: "thread_id \<Rightarrow> bool" where
  "none_ends t = False"

definition all_end :: "thread_id \<Rightarrow> bool" where
  "all_end t = True"

definition reader_ends :: "thread_id \<Rightarrow> bool" where
  "reader_ends t = (t = ReaderThread)"

section \<open>Facts about the operations\<close>

subsection \<open>The example session is what a successful start makes of a fresh object\<close>

lemma StartShell_example: "StartShell example_env (Some 0) initial = Returned example_session
  [StoreRunning True, Tcgetattr,
   Forkpty TermOfStdin \<lparr> ws_row = 24, ws_col = 80, ws_xpixel = 0, ws_ypixel = 0 \<rparr>,
   SetNonblock 3, ThreadStart ReaderThread, ThreadStart SignalThread, SigactionWinch,
   Callback 0 started_notice]"
  by (simp add: StartShell_def example_env_def initial_def example_session_def notify_def Let_def)

lemma example_session_reach: "example_session \<in> reach"
  by (rule reach_start [OF reach_initial _ StartShell_example]) (simp add: example_env_def)

subsection \<open>StopShell on a running session\<close>

lemma StopShell_not_running: "\<not> m_running (fst (StopShell ends probe s))"
  by (simp add: StopShell_def stop_child_def close_master_def join_threads_def Let_def
      split: prod.splits)

text \<open>
  The events up to and including the close, which do not depend on the other threads.
\<close>

lemma StopShell_running:
  "m_running s \<Longrightarrow> StopShell ends probe s =
     (s\<lparr>m_running := False,
        m_child_pid := (if 0 < m_child_pid s then - 1 else m_child_pid s),
        m_master_fd := (if 0 \<le> m_master_fd s then - 1 else m_master_fd s),
        m_reader_thread := m_reader_thread s \<and> \<not> ends ReaderThread,
        m_signal_thread :=
          m_signal_thread s \<and> ((m_reader_thread s \<and> \<not> ends ReaderThread) \<or> \<not> ends SignalThread),
        s_active_instance :=
          s_active_instance s \<and>
          ((m_reader_thread s \<and> \<not> ends ReaderThread) \<or> (m_signal_thread s \<and> \<not> ends SignalThread))\<rparr>,
      [StoreRunning False]
        @ (if 0 < m_child_pid s
           then [Kill (m_child_pid s) SIGTERM, Usleep 200000, Kill (m_child_pid s) Sig0]
                  @ (if probe = 0 then [Kill (m_child_pid s) SIGKILL] else [])
                  @ [Waitpid (m_child_pid s)]
           else [])
        @ (if 0 \<le> m_master_fd s then [Close (m_master_fd s)] else [])
        @ (if m_reader_thread s then [Join ReaderThread] else [])
        @ (if m_reader_thread s \<and> \<not> ends ReaderThread then []
           else (if m_signal_thread s then [Join SignalThread] else [])
                  @ (if m_signal_thread s \<and> \<not> ends SignalThread then []
                     else notify s terminated_notice)),
      \<not> (m_reader_thread s \<and> \<not> ends ReaderThread) \<and> \<not> (m_signal_thread s \<and> \<not> ends SignalThread))"
  by (auto simp add: StopShell_def stop_child_def close_master_def join_threads_def Let_def
      notify_def)

subsection \<open>A running session is a valid one\<close>

text \<open>
  By induction over the operations: only a successful \<open>StartShell\<close> sets the flag, and
  it sets the child, the descriptor and both threads with it; every other operation
  either leaves these alone or clears the flag.
\<close>

lemma reach_running:
  "s \<in> reach \<Longrightarrow> m_running s \<Longrightarrow>
     0 < m_child_pid s \<and> 0 \<le> m_master_fd s \<and> m_reader_thread s \<and> m_signal_thread s"
proof (induction rule: reach.induct)
  case reach_initial
  then show ?case by (simp add: initial_def)
next
  case (reach_start s env callback s' es)
  then show ?case
    by (auto simp: StartShell_def Let_def split: if_splits)
next
  case (reach_stop s ends probe s' es returned)
  then show ?case
    using StopShell_not_running [of ends probe s] by (cases "m_running s") (auto simp: StopShell_def)
next
  case (reach_write s n errno reader_stored ends probe command s' es returned)
  then show ?case
    using StopShell_not_running [of ends probe s]
      StopShell_not_running [of ends probe "s\<lparr>m_running := False\<rparr>"]
    by (auto simp: WriteToShell_def Let_def split: if_splits prod.splits)
next
  case (reach_resize s cols rows s' es)
  then show ?case by (auto simp: NotifyResize_def Let_def split: if_splits)
next
  case (reach_sigwinch s)
  then show ?case by (auto simp: SigwinchHandler_def split: if_splits)
next
  case (reach_reader s ios s' es)
  then show ?case by (auto simp: ReaderThreadFunc_def split: if_splits prod.splits)
qed

subsection \<open>Traces\<close>

lemma delivered_append [simp]: "delivered (xs @ ys) = delivered xs @ delivered ys"
  by (induction xs rule: delivered.induct) simp_all

lemma writes_append [simp]: "writes (xs @ ys) = writes xs @ writes ys"
  by (induction xs rule: writes.induct) simp_all

lemma writes_notify [simp]: "writes (notify s msg) = []"
  by (simp add: notify_def split: option.splits)

lemma writes_StopShell: "writes (fst (snd (StopShell ends probe s))) = []"
  by (cases "m_running s") (simp_all add: StopShell_running, simp add: StopShell_def)

lemma thread_starts_append [simp]: "thread_starts (xs @ ys) = thread_starts xs @ thread_starts ys"
  by (induction xs rule: thread_starts.induct) simp_all

lemma all_prefixed_append [simp]: "all_prefixed (xs @ ys) \<longleftrightarrow> all_prefixed xs \<and> all_prefixed ys"
  by (simp add: all_prefixed_def)

lemma all_prefixed_Nil [simp]: "all_prefixed []"
  by (simp add: all_prefixed_def)

lemma all_prefixed_Cons [simp]:
  "all_prefixed (e # es) \<longleftrightarrow>
     (case e of Callback cb msg \<Rightarrow> has_output_prefix msg | _ \<Rightarrow> True) \<and> all_prefixed es"
  by (cases e) (simp_all add: all_prefixed_def)

lemma all_prefixed_notify: "has_output_prefix msg \<Longrightarrow> all_prefixed (notify s msg)"
  by (simp add: all_prefixed_def notify_def split: option.splits)

lemma notices_prefixed:
  "has_output_prefix terminated_notice" "has_output_prefix forkpty_failed_notice"
  "has_output_prefix started_notice" "has_output_prefix closed_notice"
  "has_output_prefix (chunk_message bytes)"
  by (simp_all add: has_output_prefix_def output_prefix_def terminated_notice_def
      forkpty_failed_notice_def started_notice_def closed_notice_def chunk_message_def)

lemma all_prefixed_StopShell: "all_prefixed (fst (snd (StopShell ends probe s)))"
proof (cases "m_running s")
  case True
  then show ?thesis
    by (simp add: StopShell_running all_prefixed_notify notices_prefixed)
next
  case False
  then show ?thesis by (simp add: StopShell_def)
qed

lemma all_prefixed_reader_loop: "all_prefixed (fst (reader_loop s ios))"
proof (induction ios)
  case Nil
  then show ?case by simp
next
  case (Cons io ios)
  show ?case
    using Cons
    by (cases "reader_loop s ios")
       (simp add: Let_def all_prefixed_notify notices_prefixed)
qed

lemma all_prefixed_signal_loop: "all_prefixed (fst (signal_loop s ios))"
proof (induction ios)
  case Nil
  then show ?case by simp
next
  case (Cons io ios)
  obtain b r sg where io: "io = (b, r, sg)" by (cases io)
  show ?case
    using Cons
    by (cases "signal_loop s ios") (simp add: io Let_def)
qed

lemma reader_hangup:
  "ReaderThreadFunc [hangup_io] example_session =
     (example_session\<lparr>m_running := False\<rparr>,
      [Poll 3 150, StoreRunning False, Callback 0 closed_notice], True)"
  by (simp add: ReaderThreadFunc_def hangup_io_def example_session_def notify_def
      POLLERR_def POLLHUP_def POLLNVAL_def)

subsection \<open>The cast to \<open>unsigned short\<close>\<close>

lemma ucast_short_sint: "uint (ucast (w :: 32 word) :: 16 word) = sint w mod 2 ^ 16"
proof -
  have "uint (ucast w :: 16 word) = take_bit 16 (uint w)"
    by (simp add: unsigned_ucast_eq)
  also have "\<dots> = take_bit 16 (sint w)"
    by (simp add: sint_uint take_bit_signed_take_bit)
  finally show ?thesis by (simp add: take_bit_eq_mod)
qed

lemma ucast_short_exact:
  "0 \<le> sint (w :: 32 word) \<Longrightarrow> sint w \<le> 65535 \<Longrightarrow> uint (ucast w :: 16 word) = sint w"
  by (simp add: ucast_short_sint)

subsection \<open>The invariant of a stop\<close>

lemma launch_simps [simp]:
  "m_running (launch s) = m_running s" "m_master_fd (launch s) = m_master_fd s"
  "m_child_pid (launch s) = m_child_pid s" "m_reader_thread (launch s) = m_reader_thread s"
  "m_signal_thread (launch s) = m_signal_thread s" "m_callback (launch s) = m_callback s"
  "mpc (launch s) = M93" "rpc (launch s) = R152" "spc (launch s) = S194"
  "master_open (launch s) = True" "trace (launch s) = []"
  by (simp_all add: launch_def session.defs)

lemma stop_inv_launch:
  "s \<in> reach \<Longrightarrow> m_running s \<Longrightarrow> stop_inv (launch s)"
  using reach_running [of s] by (simp add: stop_inv_def)

lemma stop_inv_main: "stop_inv c \<Longrightarrow> main_step probe c = Some c' \<Longrightarrow> stop_inv c'"
  by (cases "mpc c") (auto simp: main_step_def stop_inv_def emit_def split: if_splits)

lemma stop_inv_reader: "stop_inv c \<Longrightarrow> reader_step io c = Some c' \<Longrightarrow> stop_inv c'"
  by (cases "rpc c") (auto simp: reader_step_def stop_inv_def emit_def Let_def split: if_splits)

lemma stop_inv_signal: "stop_inv c \<Longrightarrow> signal_step ret sg c = Some c' \<Longrightarrow> stop_inv c'"
  by (cases "spc c") (auto simp: signal_step_def stop_inv_def emit_def split: if_splits)

lemma stop_inv_write: "stop_inv c \<Longrightarrow> write_step command n errno c = Some c' \<Longrightarrow> stop_inv c'"
  by (cases "mpc c") (auto simp: write_step_def stop_inv_def emit_def split: if_splits)

lemma stop_inv_step: "stop_inv c \<Longrightarrow> step a c = Some c' \<Longrightarrow> stop_inv c'"
  by (cases a) (auto intro: stop_inv_main stop_inv_reader stop_inv_signal stop_inv_write)

lemma stop_inv_run: "stop_inv c \<Longrightarrow> run as c = Some c' \<Longrightarrow> stop_inv c'"
proof (induction as arbitrary: c)
  case Nil
  then show ?case by simp
next
  case (Cons a as)
  then show ?case
    by (auto split: option.splits dest: stop_inv_step)
qed

lemma closed_at_cleared: "closed_at pc \<Longrightarrow> cleared pc"
  by (cases pc) simp_all

lemma joined_at_closed: "joined_at pc \<Longrightarrow> closed_at pc"
  by (cases pc) simp_all

subsection \<open>The two readings of StopShell agree\<close>

text \<open>
  When both background threads have ended, the statements of \<open>main_step\<close> taken one
  after the other issue the events of \<open>StopShell\<close> and leave its session.
\<close>

lemma main_run_numeral:
  "main_run (numeral k) probe c =
     (case main_step probe c of None \<Rightarrow> c | Some c' \<Rightarrow> main_run (pred_numeral k) probe c')"
  by (simp add: numeral_eq_Suc)

lemma main_run_one:
  "main_run 1 probe c = (case main_step probe c of None \<Rightarrow> c | Some c' \<Rightarrow> c')"
  by (simp split: option.splits)

lemma main_thread_alone:
  assumes "m_running s"
  shows "mpc (main_run 16 probe (ended s)) = M_end \<and>
         StopShell all_end probe s =
           (session.truncate (main_run 16 probe (ended s)),
            trace (main_run 16 probe (ended s)), True)"
  using assms
  by (cases "0 < m_child_pid s"; cases "probe = 0"; cases "0 \<le> m_master_fd s";
      cases "m_reader_thread s"; cases "m_signal_thread s")
     (simp_all add: StopShell_running main_run_numeral main_run_one ended_def launch_def
        session.defs main_step_def emit_def notify_def all_end_def split: option.splits)

subsection \<open>The signal thread in sigwait\<close>

text \<open>
  Nothing that the caller or the reader does lets the signal thread leave \<open>sigwait\<close>:
  as long as the signal thread does not move, it stays at line 204, it stays joinable, and
  the caller does not get past the join of line 117.
\<close>

lemma signal_waits_step:
  assumes "spc c = S204" and "m_signal_thread c" and "\<not> signal_joined (mpc c)"
    and "no_signal_step [a]" and "step a c = Some c'"
  shows "spc c' = S204 \<and> m_signal_thread c' \<and> \<not> signal_joined (mpc c')"
proof (cases a)
  case (MainStep probe)
  then show ?thesis
    using assms by (cases "mpc c") (auto simp: main_step_def emit_def split: if_splits)
next
  case (ReaderStep io)
  then show ?thesis
    using assms
    by (cases "rpc c") (auto simp: reader_step_def emit_def Let_def split: if_splits)
next
  case (SignalStep ret sg)
  then show ?thesis using assms by simp
next
  case (WriteStep command n errno)
  then show ?thesis
    using assms by (cases "mpc c") (auto simp: write_step_def emit_def split: if_splits)
qed

lemma signal_waits_run:
  assumes "spc c = S204" and "m_signal_thread c" and "\<not> signal_joined (mpc c)"
    and "no_signal_step as" and "run as c = Some c'"
  shows "spc c' = S204 \<and> m_signal_thread c' \<and> \<not> signal_joined (mpc c')"
  using assms
proof (induction as arbitrary: c)
  case Nil
  then show ?case by simp
next
  case (Cons a as)
  from Cons.prems(5) obtain c1 where c1: "step a c = Some c1" and r: "run as c1 = Some c'"
    by (auto split: option.splits)
  have a: "no_signal_step [a]" and as: "no_signal_step as"
    using Cons.prems(4) by (cases a; simp)+
  from signal_waits_step [OF Cons.prems(1-3) a c1]
  show ?case using Cons.IH [OF _ _ _ as r] by blast
qed

section \<open>The claims\<close>

subsection \<open>C1: the line terminator of WriteToShell\<close>

text \<open>
  Claim C1, as the code has it. On a running session (one reached by whole operations, or
  any one with a valid descriptor) \<open>WriteToShell\<close> hands exactly one
  buffer to \<open>write\<close>, on the master descriptor. For a command that is not empty the
  buffer is the command followed by one line feed when the command does not end with a line
  feed, and the command itself when it does. The empty command is written as it is: no
  terminator is appended to it.
\<close>

theorem WriteToShell_terminator:
  assumes "m_running s" and "s \<in> reach \<or> 0 \<le> m_master_fd s"
  shows "writes (fst (snd (WriteToShell n errno reader_stored ends probe command s))) =
           [(m_master_fd s,
             if command = [] then []
             else if last command = CHR 0x0A then command
             else command @ [CHR 0x0A])]"
proof -
  have fd: "0 \<le> m_master_fd s"
    using assms reach_running [of s] by blast
  have data: "line_data command =
      (if command = [] then [] else if last command = CHR 0x0A then command else command @ [CHR 0x0A])"
    by (simp add: line_data_def)
  show ?thesis
  proof (cases "n < 0 \<and> errno \<noteq> EAGAIN \<and> errno \<noteq> EWOULDBLOCK")
    case True
    then have "fst (snd (WriteToShell n errno reader_stored ends probe command s)) =
        [Write (m_master_fd s) (line_data command)]
          @ fst (snd (StopShell ends probe (if reader_stored then s\<lparr>m_running := False\<rparr> else s)))"
      using assms(1) fd by (simp add: WriteToShell_def Let_def split: prod.splits)
    then show ?thesis
      by (simp add: writes_StopShell data)
  next
    case False
    then have "fst (snd (WriteToShell n errno reader_stored ends probe command s)) =
        [Write (m_master_fd s) (line_data command)]"
      using assms(1) fd by (auto simp add: WriteToShell_def Let_def)
    then show ?thesis
      by (simp add: data)
  qed
qed

theorem WriteToShell_terminator_witness:
  "example_session \<in> reach \<and> m_running example_session \<and>
   writes (fst (snd (WriteToShell 2 0 False all_end 0 ''ls'' example_session))) =
     [(3, ''ls\<newline>'')] \<and>
   writes (fst (snd (WriteToShell 3 0 False all_end 0 ''ls\<newline>'' example_session))) =
     [(3, ''ls\<newline>'')]"
proof -
  have r: "example_session \<in> reach" by (rule example_session_reach)
  have m: "m_running example_session" by (simp add: example_session_def)
  have fd: "m_master_fd example_session = 3" by (simp add: example_session_def)
  show ?thesis
    using r m WriteToShell_terminator [OF m disjI1 [OF r], of 2 0 False all_end 0 "''ls''"]
      WriteToShell_terminator [OF m disjI1 [OF r], of 3 0 False all_end 0 "''ls\<newline>''"]
    by (simp add: fd)
qed

text \<open>
  Against C1 as stated (every string, the empty one included, gets a terminator): for the
  empty command the buffer written is empty, not a line feed.
\<close>

theorem WriteToShell_empty_counterexample:
  "m_running example_session \<and>
   writes (fst (snd (WriteToShell 0 0 False all_end 0 [] example_session))) = [(3, [])] \<and>
   writes (fst (snd (WriteToShell 0 0 False all_end 0 [] example_session))) \<noteq>
     [(3, [] @ [CHR 0x0A])]"
  by (simp add: WriteToShell_def example_session_def line_data_def)

subsection \<open>C2: the order of StopShell\<close>

text \<open>
  Claim C2, against the code. The claim has \<open>StopShell\<close> join both threads and then
  hand the termination notice to the callback. The code issues the steps in the claimed
  order as far as the join of the reader, and then stays in the join of the signal thread
  (line 117): that thread sits in \<open>sigwait\<close> (line 204), which no step of
  \<open>StopShell\<close> makes return. Here is an ordinary stop of the example session with no
  signal on its way: at the end the caller stands at line 116 and cannot move, the reader
  has ended, the signal thread is at line 204, and the notice of line 123 is not among the
  events. Read as one function, with only the reader ending, \<open>StopShell\<close> issues the
  same steps and does not return.
\<close>

theorem StopShell_stays_in_join:
  "map_option standstill (run join_hang (launch example_session)) =
     Some (M116, R_end, S204, True, True,
       [SigmaskBlock, StoreRunning False, Poll 3 150, StoreRunning False,
        Callback 0 closed_notice,
        Kill 100 SIGTERM, Usleep 200000, Kill 100 Sig0, Kill 100 SIGKILL, Waitpid 100,
        Close 3, Join ReaderThread]) \<and>
   StopShell reader_ends 0 example_session =
     (example_session\<lparr>m_running := False, m_child_pid := - 1, m_master_fd := - 1,
        m_reader_thread := False\<rparr>,
      [StoreRunning False, Kill 100 SIGTERM, Usleep 200000, Kill 100 Sig0, Kill 100 SIGKILL,
       Waitpid 100, Close 3, Join ReaderThread, Join SignalThread],
      False)"
proof -
  have "map_option standstill (run join_hang (launch example_session)) =
     Some (M116, R_end, S204, True, True,
       [SigmaskBlock, StoreRunning False, Poll 3 150, StoreRunning False,
        Callback 0 closed_notice,
        Kill 100 SIGTERM, Usleep 200000, Kill 100 Sig0, Kill 100 SIGKILL, Waitpid 100,
        Close 3, Join ReaderThread])"
    by (simp add: join_hang_def launch_def session.defs example_session_def timeout_io_def
        main_step_def reader_step_def signal_step_def emit_def standstill_def notify_def)
  moreover have "StopShell reader_ends 0 example_session =
     (example_session\<lparr>m_running := False, m_child_pid := - 1, m_master_fd := - 1,
        m_reader_thread := False\<rparr>,
      [StoreRunning False, Kill 100 SIGTERM, Usleep 200000, Kill 100 Sig0, Kill 100 SIGKILL,
       Waitpid 100, Close 3, Join ReaderThread, Join SignalThread],
      False)"
    by (simp add: StopShell_def stop_child_def close_master_def join_threads_def
        example_session_def reader_ends_def)
  ultimately show ?thesis by blast
qed

subsection \<open>C3: the close and the reader thread\<close>

text \<open>
  Claim C3, as the code has it. During a stop of a running session, with the three threads
  interleaved in any way: the master descriptor is closed only after the running flag has
  been cleared; the reader thread is joined only after it has ended and only after the
  descriptor has been closed; and a reader that tests the flag once the descriptor is
  closed leaves its loop. The close itself does not wait for the reader.
\<close>

theorem close_after_clear_join_after_close:
  assumes "s \<in> reach" and "m_running s" and "run sched (launch s) = Some c"
  shows "(\<not> master_open c \<longrightarrow> \<not> m_running c) \<and>
         (\<not> m_reader_thread c \<longrightarrow> rpc c = R_end \<and> \<not> master_open c) \<and>
         (\<not> master_open c \<and> rpc c = R155 \<longrightarrow> map_option rpc (reader_step io c) = Some R184)"
proof -
  have inv: "stop_inv c"
    using stop_inv_run [OF stop_inv_launch [OF assms(1,2)] assms(3)] .
  have a: "\<not> m_running c" if "\<not> master_open c"
    using inv that closed_at_cleared [of "mpc c"] by (simp add: stop_inv_def)
  have b: "rpc c = R_end \<and> \<not> master_open c" if "\<not> m_reader_thread c"
    using inv that joined_at_closed [of "mpc c"] by (simp add: stop_inv_def)
  have "map_option rpc (reader_step io c) = Some R184" if "\<not> master_open c" and "rpc c = R155"
    using a [OF that(1)] that(2) by (simp add: reader_step_def)
  with a b show ?thesis by blast
qed

theorem close_after_clear_join_after_close_witness:
  "example_session \<in> reach \<and> m_running example_session \<and>
   (\<exists>c. run full_stop (launch example_session) = Some c \<and>
        observe c =
          (M_end, R_end, False, False,
           [StoreRunning False, Kill 100 SIGTERM, Usleep 200000, Kill 100 Sig0,
            Kill 100 SIGKILL, Waitpid 100, Close 3, Poll 3 150, StoreRunning False,
            Callback 0 closed_notice, Join ReaderThread, SigmaskBlock, Join SignalThread,
            Callback 0 terminated_notice]) \<and>
        \<not> m_reader_thread c \<and> \<not> master_open c \<and> \<not> m_running c \<and> rpc c = R_end)"
proof -
  have r: "example_session \<in> reach" by (rule example_session_reach)
  have m: "m_running example_session" by (simp add: example_session_def)
  have "map_option (\<lambda>c. (observe c, m_reader_thread c)) (run full_stop (launch example_session)) =
      Some ((M_end, R_end, False, False,
           [StoreRunning False, Kill 100 SIGTERM, Usleep 200000, Kill 100 Sig0,
            Kill 100 SIGKILL, Waitpid 100, Close 3, Poll 3 150, StoreRunning False,
            Callback 0 closed_notice, Join ReaderThread, SigmaskBlock, Join SignalThread,
            Callback 0 terminated_notice]), False)"
    by (simp add: full_stop_def close_race_def launch_def session.defs example_session_def
        timeout_io_def nval_io_def main_step_def reader_step_def signal_step_def emit_def
        observe_def notify_def POLLERR_def POLLHUP_def POLLNVAL_def)
  then obtain c where c: "run full_stop (launch example_session) = Some c"
    and o: "observe c =
          (M_end, R_end, False, False,
           [StoreRunning False, Kill 100 SIGTERM, Usleep 200000, Kill 100 Sig0,
            Kill 100 SIGKILL, Waitpid 100, Close 3, Poll 3 150, StoreRunning False,
            Callback 0 closed_notice, Join ReaderThread, SigmaskBlock, Join SignalThread,
            Callback 0 terminated_notice])"
    and j: "\<not> m_reader_thread c"
    by (auto simp: map_option_case split: option.splits)
  from close_after_clear_join_after_close [OF r m c] j o
  have "\<not> m_reader_thread c \<and> \<not> master_open c \<and> \<not> m_running c \<and> rpc c = R_end"
    by (simp add: observe_def)
  with r m c o show ?thesis by blast
qed

text \<open>
  Against C3 as stated (no close before the reader has ended): the reader has passed its
  loop test and stands before \<open>poll\<close> when the caller stops the session. After the
  \<open>close\<close> of line 109 the reader is still at line 156, and its next step polls the
  descriptor 3 that has just been closed.
\<close>

theorem close_before_reader_end_counterexample:
  "map_option observe (run close_race (launch example_session)) =
     Some (M110, R156, False, False,
       [StoreRunning False, Kill 100 SIGTERM, Usleep 200000, Kill 100 Sig0, Kill 100 SIGKILL,
        Waitpid 100, Close 3]) \<and>
   map_option observe (run (close_race @ [ReaderStep nval_io]) (launch example_session)) =
     Some (M110, R184, False, False,
       [StoreRunning False, Kill 100 SIGTERM, Usleep 200000, Kill 100 Sig0, Kill 100 SIGKILL,
        Waitpid 100, Close 3, Poll 3 150])"
  by (simp add: close_race_def launch_def session.defs example_session_def timeout_io_def
      nval_io_def main_step_def reader_step_def emit_def observe_def
      POLLERR_def POLLHUP_def POLLNVAL_def)

subsection \<open>C4: the running flag and the validity of child and descriptor\<close>

text \<open>
  Claim C4, as the code has it. In every session reached by whole operations, if the
  running flag is set then the child process identifier is positive and the master
  descriptor is not negative. The converse is not claimed.
\<close>

theorem running_implies_valid:
  assumes "s \<in> reach" and "m_running s"
  shows "0 < m_child_pid s \<and> 0 \<le> m_master_fd s"
  using reach_running [OF assms] by simp

theorem running_implies_valid_witness:
  "example_session \<in> reach \<and> m_running example_session \<and>
   0 < m_child_pid example_session \<and> 0 \<le> m_master_fd example_session"
proof -
  have r: "example_session \<in> reach" by (rule example_session_reach)
  have m: "m_running example_session" by (simp add: example_session_def)
  show ?thesis using r m running_implies_valid [OF r m] by simp
qed

text \<open>
  Against C4 as stated (an equivalence): when the reader's loop ends on a hangup, lines
  184 to 187 clear the flag and leave child and descriptor as they are.
\<close>

theorem running_iff_valid_counterexample:
  "example_session\<lparr>m_running := False\<rparr> \<in> reach \<and>
   \<not> m_running (example_session\<lparr>m_running := False\<rparr>) \<and>
   0 < m_child_pid (example_session\<lparr>m_running := False\<rparr>) \<and>
   0 \<le> m_master_fd (example_session\<lparr>m_running := False\<rparr>)"
proof -
  have "m_reader_thread example_session" by (simp add: example_session_def)
  then have "example_session\<lparr>m_running := False\<rparr> \<in> reach"
    by (rule reach_reader [OF example_session_reach _ reader_hangup])
  then show ?thesis by (simp add: example_session_def)
qed

subsection \<open>C5: the prefix of what the callback receives\<close>

text \<open>
  Claim C5, as the code has it. Every string that any operation or background thread hands
  to the callback begins with the fixed prefix \<open>ISHELL_OUTPUT:\<close>, a chunk of child
  output and a lifecycle notice alike; the prefix does not tell the two apart.
\<close>

theorem sink_strings_prefixed:
  "all_prefixed (events_of (StartShell env callback s)) \<and>
   all_prefixed (fst (snd (StopShell ends probe s))) \<and>
   all_prefixed (fst (snd (WriteToShell n errno reader_stored ends probe command s))) \<and>
   all_prefixed (snd (NotifyResize cols rows s)) \<and>
   all_prefixed (fst (snd (ReaderThreadFunc ios s))) \<and>
   all_prefixed (fst (SignalForwardThreadFunc sios s))"
proof -
  have "all_prefixed (events_of (StartShell env callback s))"
    by (simp add: StartShell_def Let_def all_prefixed_notify notices_prefixed)
  moreover have "all_prefixed (fst (snd (WriteToShell n errno reader_stored ends probe command s)))"
    using all_prefixed_StopShell [of ends probe s]
      all_prefixed_StopShell [of ends probe "s\<lparr>m_running := False\<rparr>"]
    by (auto simp add: WriteToShell_def Let_def split: prod.splits)
  moreover have "all_prefixed (snd (NotifyResize cols rows s))"
    by (simp add: NotifyResize_def Let_def)
  moreover have "all_prefixed (fst (snd (ReaderThreadFunc ios s)))"
    using all_prefixed_reader_loop [of s ios]
    by (auto simp add: ReaderThreadFunc_def all_prefixed_notify notices_prefixed split: prod.splits)
  moreover have "all_prefixed (fst (SignalForwardThreadFunc sios s))"
    using all_prefixed_signal_loop [of s sios]
    by (auto simp add: SignalForwardThreadFunc_def split: prod.splits)
  ultimately show ?thesis
    using all_prefixed_StopShell by blast
qed

theorem sink_strings_prefixed_witness:
  "all_prefixed (fst (snd (StopShell all_end 0 example_session))) \<and>
   delivered (fst (snd (StopShell all_end 0 example_session))) =
     [(0, ''ISHELL_OUTPUT:[*] Shell terminated\<newline>'')] \<and>
   all_prefixed (fst (snd (ReaderThreadFunc [data_io ''hello\<newline>'', hangup_io] example_session))) \<and>
   delivered (fst (snd (ReaderThreadFunc [data_io ''hello\<newline>'', hangup_io] example_session))) =
     [(0, ''ISHELL_OUTPUT:hello\<newline>''), (0, ''ISHELL_OUTPUT:[*] PTY closed\<newline>'')]"
proof -
  have m: "m_running example_session" by (simp add: example_session_def)
  have a: "delivered (fst (snd (StopShell all_end 0 example_session))) =
     [(0, ''ISHELL_OUTPUT:[*] Shell terminated\<newline>'')]"
    by (simp add: StopShell_running [OF m])
       (simp add: example_session_def notify_def terminated_notice_def all_end_def)
  have b: "delivered (fst (snd (ReaderThreadFunc [data_io ''hello\<newline>'', hangup_io] example_session))) =
     [(0, ''ISHELL_OUTPUT:hello\<newline>''), (0, ''ISHELL_OUTPUT:[*] PTY closed\<newline>'')]"
    by (simp add: ReaderThreadFunc_def hangup_io_def data_io_def example_session_def notify_def
        POLLERR_def POLLHUP_def POLLNVAL_def POLLIN_def chunk_message_def closed_notice_def
        output_prefix_def)
  show ?thesis
    using a b
      sink_strings_prefixed [of example_env "Some 0" example_session all_end 0 0 0 False
        "''ls''" 80 24
        "[data_io ''hello\<newline>'', hangup_io]" "[]"]
    by simp
qed

text \<open>
  Against C5 as stated (the prefix separates the two kinds): when the child prints the
  text of the closed notice, the chunk and the notice reach the callback as the same
  string.
\<close>

theorem sink_prefix_counterexample:
  "delivered (fst (snd (ReaderThreadFunc [data_io ''[*] PTY closed\<newline>'', hangup_io] example_session))) =
     [(0, chunk_message ''[*] PTY closed\<newline>''), (0, closed_notice)] \<and>
   chunk_message ''[*] PTY closed\<newline>'' = closed_notice"
  by (simp add: ReaderThreadFunc_def hangup_io_def data_io_def example_session_def notify_def
      POLLERR_def POLLHUP_def POLLNVAL_def POLLIN_def chunk_message_def closed_notice_def
      output_prefix_def)

subsection \<open>C6: operations on a session that is not running\<close>

text \<open>
  Claim C6. On a session whose running flag is not set, \<open>WriteToShell\<close>,
  \<open>NotifyResize\<close> and \<open>StopShell\<close> return, with the session unchanged and no event:
  nothing is written, no signal is sent, nothing reaches the callback. A
  \<open>StopShell\<close> that follows a \<open>StopShell\<close> is such a call.
\<close>

theorem not_running_noop:
  "\<not> m_running s \<Longrightarrow>
     WriteToShell n errno reader_stored ends probe command s = (s, [], True) \<and>
     NotifyResize cols rows s = (s, []) \<and>
     StopShell ends probe s = (s, [], True) \<and>
     StopShell ends2 probe2 (fst (StopShell ends1 probe1 s0)) =
       (fst (StopShell ends1 probe1 s0), [], True)"
  using StopShell_not_running [of ends1 probe1 s0]
  by (simp add: WriteToShell_def NotifyResize_def StopShell_def [of ends2 probe2]
      StopShell_def [of ends probe])

theorem not_running_noop_witness:
  "\<not> m_running initial \<and>
   WriteToShell 0 0 False all_end 0 ''ls'' initial = (initial, [], True) \<and>
   NotifyResize 120 40 initial = (initial, []) \<and>
   StopShell all_end 0 initial = (initial, [], True) \<and>
   StopShell all_end 0 (fst (StopShell all_end 0 example_session)) =
     (fst (StopShell all_end 0 example_session), [], True)"
proof -
  have m: "\<not> m_running initial" by (simp add: initial_def)
  show ?thesis
    using m not_running_noop [OF m, of 0 0 False all_end 0 "''ls''" 120 40 all_end 0 all_end 0
        example_session]
    by simp
qed

subsection \<open>C7: a failed write\<close>

text \<open>
  Claim C7, as the code has it. On a running session, when \<open>write\<close> returns a negative
  value and the error number is neither \<open>EAGAIN\<close> nor \<open>EWOULDBLOCK\<close>,
  \<open>WriteToShell\<close> calls \<open>StopShell\<close>, which tests the running flag itself. If the
  flag is still set, \<open>StopShell\<close> does what it does on a direct call and the session is
  no longer running; on a session reached by whole operations it clears the flag, signals
  and reaps the child, closes the descriptor and goes on to the join of the reader. If the
  reader thread has cleared the flag since the test of line 128, \<open>StopShell\<close> returns
  at once: nothing is signalled or closed. When the error number is one of the two,
  \<open>WriteToShell\<close> does nothing after the write and the session stays as it was, running.
\<close>

theorem WriteToShell_failure:
  assumes "m_running s" and "s \<in> reach \<or> 0 \<le> m_master_fd s" and "n < 0"
  shows "(errno \<noteq> EAGAIN \<and> errno \<noteq> EWOULDBLOCK \<and> \<not> reader_stored \<longrightarrow>
            WriteToShell n errno reader_stored ends probe command s =
              (fst (StopShell ends probe s),
               Write (m_master_fd s) (line_data command) # fst (snd (StopShell ends probe s)),
               snd (snd (StopShell ends probe s))) \<and>
            \<not> m_running (fst (WriteToShell n errno reader_stored ends probe command s)) \<and>
            (s \<in> reach \<longrightarrow>
               (\<exists>rest. fst (snd (WriteToShell n errno reader_stored ends probe command s)) =
                  [Write (m_master_fd s) (line_data command), StoreRunning False,
                   Kill (m_child_pid s) SIGTERM, Usleep 200000, Kill (m_child_pid s) Sig0]
                    @ (if probe = 0 then [Kill (m_child_pid s) SIGKILL] else [])
                    @ [Waitpid (m_child_pid s), Close (m_master_fd s), Join ReaderThread]
                    @ rest))) \<and>
         (errno \<noteq> EAGAIN \<and> errno \<noteq> EWOULDBLOCK \<and> reader_stored \<longrightarrow>
            WriteToShell n errno reader_stored ends probe command s =
              (s\<lparr>m_running := False\<rparr>, [Write (m_master_fd s) (line_data command)], True)) \<and>
         (errno = EAGAIN \<or> errno = EWOULDBLOCK \<longrightarrow>
            WriteToShell n errno reader_stored ends probe command s =
              (s, [Write (m_master_fd s) (line_data command)], True) \<and>
            m_running (fst (WriteToShell n errno reader_stored ends probe command s)))"
proof -
  have fd: "0 \<le> m_master_fd s"
    using assms(1,2) reach_running [of s] by blast
  have a: "WriteToShell n errno reader_stored ends probe command s =
              (fst (StopShell ends probe s),
               Write (m_master_fd s) (line_data command) # fst (snd (StopShell ends probe s)),
               snd (snd (StopShell ends probe s)))"
    if "errno \<noteq> EAGAIN" and "errno \<noteq> EWOULDBLOCK" and "\<not> reader_stored"
    using that assms(1,3) fd by (simp add: WriteToShell_def Let_def split: prod.splits)
  have b: "\<not> m_running (fst (WriteToShell n errno reader_stored ends probe command s))"
    if "errno \<noteq> EAGAIN" and "errno \<noteq> EWOULDBLOCK" and "\<not> reader_stored"
    using a [OF that] StopShell_not_running [of ends probe s] by simp
  have c: "\<exists>rest. fst (snd (WriteToShell n errno reader_stored ends probe command s)) =
                  [Write (m_master_fd s) (line_data command), StoreRunning False,
                   Kill (m_child_pid s) SIGTERM, Usleep 200000, Kill (m_child_pid s) Sig0]
                    @ (if probe = 0 then [Kill (m_child_pid s) SIGKILL] else [])
                    @ [Waitpid (m_child_pid s), Close (m_master_fd s), Join ReaderThread]
                    @ rest"
    if "errno \<noteq> EAGAIN" and "errno \<noteq> EWOULDBLOCK" and "\<not> reader_stored" and "s \<in> reach"
    using reach_running [OF that(4) assms(1)]
    by (simp add: a [OF that(1-3)] StopShell_running [OF assms(1)])
  have d: "WriteToShell n errno reader_stored ends probe command s =
              (s\<lparr>m_running := False\<rparr>, [Write (m_master_fd s) (line_data command)], True)"
    if "errno \<noteq> EAGAIN" and "errno \<noteq> EWOULDBLOCK" and "reader_stored"
    using that assms(1,3) fd by (simp add: WriteToShell_def StopShell_def Let_def)
  have e: "WriteToShell n errno reader_stored ends probe command s =
              (s, [Write (m_master_fd s) (line_data command)], True) \<and>
            m_running (fst (WriteToShell n errno reader_stored ends probe command s))"
    if "errno = EAGAIN \<or> errno = EWOULDBLOCK"
    using that assms(1) fd by (auto simp add: WriteToShell_def Let_def)
  from a b c d e show ?thesis by blast
qed

theorem WriteToShell_failure_witness:
  "m_running example_session \<and> example_session \<in> reach \<and> (- 1 :: int) < 0 \<and>
   WriteToShell (- 1) 5 False reader_ends 0 ''ls'' example_session =
     (fst (StopShell reader_ends 0 example_session),
      Write 3 ''ls\<newline>'' # fst (snd (StopShell reader_ends 0 example_session)),
      snd (snd (StopShell reader_ends 0 example_session))) \<and>
   fst (snd (StopShell reader_ends 0 example_session)) =
     [StoreRunning False, Kill 100 SIGTERM, Usleep 200000, Kill 100 Sig0, Kill 100 SIGKILL,
      Waitpid 100, Close 3, Join ReaderThread, Join SignalThread] \<and>
   \<not> m_running (fst (WriteToShell (- 1) 5 False reader_ends 0 ''ls'' example_session)) \<and>
   WriteToShell (- 1) 5 True reader_ends 0 ''ls'' example_session =
     (example_session\<lparr>m_running := False\<rparr>, [Write 3 ''ls\<newline>''], True) \<and>
   WriteToShell (- 1) EAGAIN False reader_ends 0 ''ls'' example_session =
     (example_session, [Write 3 ''ls\<newline>''], True)"
proof -
  have r: "example_session \<in> reach" by (rule example_session_reach)
  have m: "m_running example_session" by (simp add: example_session_def)
  have n: "(- 1 :: int) < 0" by simp
  have e: "(5::int) \<noteq> EAGAIN \<and> (5::int) \<noteq> EWOULDBLOCK" by (simp add: EAGAIN_def EWOULDBLOCK_def)
  have st: "fst (snd (StopShell reader_ends 0 example_session)) =
     [StoreRunning False, Kill 100 SIGTERM, Usleep 200000, Kill 100 Sig0, Kill 100 SIGKILL,
      Waitpid 100, Close 3, Join ReaderThread, Join SignalThread]"
    by (simp add: StopShell_running [OF m]) (simp add: example_session_def reader_ends_def)
  have d: "line_data ''ls'' = ''ls\<newline>''" by (simp add: line_data_def)
  have fd: "m_master_fd example_session = 3" by (simp add: example_session_def)
  show ?thesis
    using r m e st StopShell_not_running [of reader_ends 0 example_session]
      WriteToShell_failure [OF m disjI1 [OF r] n, of 5 False reader_ends 0 "''ls''"]
      WriteToShell_failure [OF m disjI1 [OF r] n, of 5 True reader_ends 0 "''ls''"]
      WriteToShell_failure [OF m disjI1 [OF r] n, of EAGAIN False reader_ends 0 "''ls''"]
    by (simp add: d fd)
qed

text \<open>
  Against C7 as stated (a fatal failure always brings the full stop sequence): the child has
  gone, the write of the caller fails with error 5, and the reader, woken by the hangup,
  stores false before the caller enters \<open>StopShell\<close>. \<open>StopShell\<close> returns at line 93:
  after the write there is no signal, no wait and no close, and the descriptor is still
  open. The same as one function call, with the reader's store told to it.
\<close>

theorem WriteToShell_failure_counterexample:
  "map_option observe (run write_race (launch_write example_session)) =
     Some (M_early, R185, False, True,
       [Write 3 ''ls\<newline>'', Poll 3 150, StoreRunning False]) \<and>
   WriteToShell (- 1) 5 True all_end 0 ''ls'' example_session =
     (example_session\<lparr>m_running := False\<rparr>, [Write 3 ''ls\<newline>''], True)"
proof -
  have "map_option observe (run write_race (launch_write example_session)) =
     Some (M_early, R185, False, True,
       [Write 3 ''ls\<newline>'', Poll 3 150, StoreRunning False])"
    by (simp add: write_race_def launch_write_def launch_def session.defs example_session_def
        timeout_io_def hangup_io_def main_step_def reader_step_def write_step_def emit_def
        observe_def line_data_def EAGAIN_def EWOULDBLOCK_def POLLERR_def POLLHUP_def POLLNVAL_def)
  moreover have "WriteToShell (- 1) 5 True all_end 0 ''ls'' example_session =
     (example_session\<lparr>m_running := False\<rparr>, [Write 3 ''ls\<newline>''], True)"
    by (simp add: WriteToShell_def StopShell_def example_session_def line_data_def
        EAGAIN_def EWOULDBLOCK_def)
  ultimately show ?thesis by blast
qed

subsection \<open>C8: a failed forkpty\<close>

text \<open>
  Claim C8. When \<open>StartShell\<close> is entered on a session that is not running and
  \<open>forkpty\<close> returns a negative value, \<open>StartShell\<close> returns with the running flag
  cleared, starts no thread, leaves both thread members as they were, and hands the
  callback it was given exactly one string, the failure notice.
\<close>

theorem StartShell_forkpty_failure:
  assumes "\<not> m_running s" and "forkpty_pid env < 0"
  shows "\<exists>s' es. StartShell env callback s = Returned s' es \<and>
           \<not> m_running s' \<and>
           thread_starts es = [] \<and>
           m_reader_thread s' = m_reader_thread s \<and>
           m_signal_thread s' = m_signal_thread s \<and>
           delivered es = (case callback of None \<Rightarrow> [] | Some cb \<Rightarrow> [(cb, forkpty_failed_notice)])"
  using assms
  by (simp add: StartShell_def Let_def notify_def split: option.splits)

theorem StartShell_forkpty_failure_witness:
  "\<not> m_running initial \<and> forkpty_pid (example_env\<lparr>forkpty_pid := - 1\<rparr>) < 0 \<and>
   (\<exists>s' es. StartShell (example_env\<lparr>forkpty_pid := - 1\<rparr>) (Some 0) initial = Returned s' es \<and>
      \<not> m_running s' \<and> thread_starts es = [] \<and> \<not> m_reader_thread s' \<and> \<not> m_signal_thread s' \<and>
      delivered es = [(0, ''ISHELL_OUTPUT:[!] forkpty failed\<newline>'')])"
proof -
  have m: "\<not> m_running initial" by (simp add: initial_def)
  have f: "forkpty_pid (example_env\<lparr>forkpty_pid := - 1\<rparr>) < 0" by simp
  show ?thesis
    using m f StartShell_forkpty_failure [OF m f, of "Some 0"]
    by (simp add: initial_def forkpty_failed_notice_def)
qed

subsection \<open>C9: the child after the fork\<close>

text \<open>
  Claim C9. The child probes \<open>/bin/bash\<close> for executability and takes \<open>/bin/sh\<close>
  when the probe fails; it calls \<open>execve\<close> with the chosen path, an argument vector
  that holds this path only, and the environment of the process; when \<open>execve\<close> does
  not replace the image the child exits with status 127. This is what \<open>StartShell\<close>
  does when \<open>forkpty\<close> returns 0.
\<close>

theorem child_branch_shell:
  "select_shell (access_ret env) =
     (if access_ret env ''/bin/bash'' = 0 then ''/bin/bash'' else ''/bin/sh'') \<and>
   child_branch env =
     (if execve_replaces env (select_shell (access_ret env))
      then Execve (select_shell (access_ret env)) [select_shell (access_ret env)] (environ env)
      else Exit 127) \<and>
   (\<not> m_running s \<and> forkpty_pid env = 0 \<longrightarrow>
      StartShell env callback s = InChild (child_branch env))"
  by (simp add: select_shell_def child_branch_def StartShell_def Let_def)

theorem child_branch_shell_witness:
  "\<not> m_running initial \<and> forkpty_pid (example_env\<lparr>forkpty_pid := 0\<rparr>) = 0 \<and>
   StartShell (example_env\<lparr>forkpty_pid := 0\<rparr>) (Some 0) initial =
     InChild (Execve ''/bin/bash'' [''/bin/bash''] [''PATH=/bin'']) \<and>
   StartShell (example_env\<lparr>forkpty_pid := 0, access_ret := (\<lambda>p. - 1)\<rparr>) (Some 0) initial =
     InChild (Execve ''/bin/sh'' [''/bin/sh''] [''PATH=/bin'']) \<and>
   StartShell (example_env\<lparr>forkpty_pid := 0, execve_replaces := (\<lambda>p. False)\<rparr>) (Some 0) initial =
     InChild (Exit 127)"
proof -
  have m: "\<not> m_running initial" by (simp add: initial_def)
  show ?thesis
    using m child_branch_shell [of "example_env\<lparr>forkpty_pid := 0\<rparr>" initial "Some 0"]
      child_branch_shell [of "example_env\<lparr>forkpty_pid := 0, access_ret := (\<lambda>p. - 1)\<rparr>" initial "Some 0"]
      child_branch_shell [of "example_env\<lparr>forkpty_pid := 0, execve_replaces := (\<lambda>p. False)\<rparr>" initial "Some 0"]
    by (simp add: example_env_def)
qed

subsection \<open>C10: the window size of NotifyResize\<close>

text \<open>
  Claim C10. On a running session \<open>NotifyResize\<close> stores the two arguments unchanged in
  \<open>m_cols\<close> and \<open>m_rows\<close>, and the window size it sets on the master descriptor
  holds the arguments modulo \<open>2^16\<close>: the arguments themselves when they lie between 0
  and 65535.
\<close>

theorem NotifyResize_winsize:
  assumes "m_running s" and "s \<in> reach \<or> (0 \<le> m_master_fd s \<and> 0 < m_child_pid s)"
  shows "\<exists>ws. NotifyResize cols rows s =
             (s\<lparr>m_cols := cols, m_rows := rows\<rparr>,
              [SetWinsize (m_master_fd s) ws, Kill (m_child_pid s) SIGWINCH]) \<and>
           uint (ws_col ws) = sint cols mod 2 ^ 16 \<and>
           uint (ws_row ws) = sint rows mod 2 ^ 16 \<and>
           (0 \<le> sint cols \<and> sint cols \<le> 65535 \<longrightarrow> uint (ws_col ws) = sint cols) \<and>
           (0 \<le> sint rows \<and> sint rows \<le> 65535 \<longrightarrow> uint (ws_row ws) = sint rows)"
proof -
  have v: "0 < m_child_pid s" "0 \<le> m_master_fd s"
    using assms reach_running [of s] by blast+
  let ?ws = "\<lparr> ws_row = ucast rows, ws_col = ucast cols, ws_xpixel = 0, ws_ypixel = 0 \<rparr> :: winsize"
  have "NotifyResize cols rows s =
          (s\<lparr>m_cols := cols, m_rows := rows\<rparr>,
           [SetWinsize (m_master_fd s) ?ws, Kill (m_child_pid s) SIGWINCH])"
    using assms(1) v by (simp add: NotifyResize_def Let_def)
  moreover have "uint (ws_col ?ws) = sint cols mod 2 ^ 16" "uint (ws_row ?ws) = sint rows mod 2 ^ 16"
    by (simp_all add: ucast_short_sint)
  moreover have "0 \<le> sint cols \<and> sint cols \<le> 65535 \<longrightarrow> uint (ws_col ?ws) = sint cols"
    by (simp add: ucast_short_exact)
  moreover have "0 \<le> sint rows \<and> sint rows \<le> 65535 \<longrightarrow> uint (ws_row ?ws) = sint rows"
    by (simp add: ucast_short_exact)
  ultimately show ?thesis by blast
qed

theorem NotifyResize_winsize_witness:
  "example_session \<in> reach \<and> m_running example_session \<and>
   NotifyResize 120 40 example_session =
     (example_session\<lparr>m_cols := 120, m_rows := 40\<rparr>,
      [SetWinsize 3 \<lparr> ws_row = 40, ws_col = 120, ws_xpixel = 0, ws_ypixel = 0 \<rparr>,
       Kill 100 SIGWINCH]) \<and>
   (\<exists>ws. NotifyResize 65656 (- 1) example_session =
      (example_session\<lparr>m_cols := 65656, m_rows := - 1\<rparr>,
       [SetWinsize 3 ws, Kill 100 SIGWINCH]) \<and>
      uint (ws_col ws) = 120 \<and> uint (ws_row ws) = 65535)"
proof -
  have r: "example_session \<in> reach" by (rule example_session_reach)
  have m: "m_running example_session" by (simp add: example_session_def)
  have c: "sint (65656 :: 32 word) mod 2 ^ 16 = 120" "sint (- 1 :: 32 word) mod 2 ^ 16 = 65535"
    by simp_all
  have a: "NotifyResize 120 40 example_session =
     (example_session\<lparr>m_cols := 120, m_rows := 40\<rparr>,
      [SetWinsize 3 \<lparr> ws_row = 40, ws_col = 120, ws_xpixel = 0, ws_ypixel = 0 \<rparr>,
       Kill 100 SIGWINCH])"
    by (simp add: NotifyResize_def example_session_def)
  have fd: "m_master_fd example_session = 3" "m_child_pid example_session = 100"
    by (simp_all add: example_session_def)
  show ?thesis
    using r m a NotifyResize_winsize [OF m disjI1 [OF r], of 65656 "- 1"]
    by (simp add: c fd)
qed

end
